theory Spec2Isabelle
  imports Complex_Main "HOL-Library.Char_ord" "HOL-Library.List_Lexorder"
    "HOL-Library.Product_Lexorder"
begin

section \<open>Common values\<close>

text \<open>
  Exceptions of the Python code are values: every function that can raise returns
  \<open>error + 'a\<close>, with \<open>Inl\<close> the exception. \<open>KeyError\<close> carries the labels that were
  not found, the other exceptions the name or message they are raised with.
\<close>

datatype error =
    KeyError "string list"
  | ValueError string
  | AttributeError string
  | FileNotFoundError string
  | OutOfBoundsDatetime string

text \<open>The name of the class of an exception.\<close>

definition exception_name :: "error \<Rightarrow> string" where
  "exception_name e =
     (case e of
        KeyError _ \<Rightarrow> ''KeyError''
      | ValueError _ \<Rightarrow> ''ValueError''
      | AttributeError _ \<Rightarrow> ''AttributeError''
      | FileNotFoundError _ \<Rightarrow> ''FileNotFoundError''
      | OutOfBoundsDatetime _ \<Rightarrow> ''OutOfBoundsDatetime'')"

text \<open>
  A cell of a table or of a written file: text, a number, a point in time, or missing
  (pandas' NaN / NaT). Numbers are exact rationals; the rounding of float64 is not
  modelled.
\<close>

record datetime =
  dt_year :: nat
  dt_month :: nat
  dt_day :: nat
  dt_hour :: nat

datatype cell = Str string | Num rat | Time datetime | NA

text \<open>
  A file written by \<open>DataFrame.to_csv(path, index=False, header=True)\<close>: the header
  line (the column labels) and the data lines, each a list of fields. The row index is
  not written. The text of a field (quoting, the digits of a float) is not modelled.
\<close>

record csv =
  header :: "string list"
  body :: "cell list list"

subsection \<open>Strings and paths\<close>

definition digit_char :: "nat \<Rightarrow> char" where
  "digit_char n = ''0123456789'' ! n"

fun digits :: "nat \<Rightarrow> string" where
  "digits n = (if n < 10 then [digit_char n] else digits (n div 10) @ [digit_char (n mod 10)])"

declare digits.simps [simp del]

text \<open>\<open>str(i)\<close>, as an f-string formats an int.\<close>

definition str_int :: "int \<Rightarrow> string" where
  "str_int i = (if i < 0 then CHR ''-'' # digits (nat (- i)) else digits (nat i))"

text \<open>\<open>'%02d' % n\<close>, as \<open>strftime\<close> pads a month, day or hour.\<close>

definition pad2 :: "nat \<Rightarrow> string" where
  "pad2 n = (if n < 10 then CHR ''0'' # digits n else digits n)"

text \<open>
  \<open>os.path.join(a, b)\<close> of \<open>posixpath\<close>: an absolute \<open>b\<close> replaces \<open>a\<close>; otherwise
  a separator is put between them unless \<open>a\<close> is empty or already ends with one.
\<close>

definition path_join :: "string \<Rightarrow> string \<Rightarrow> string" where
  "path_join a b =
     (if b \<noteq> [] \<and> hd b = CHR ''/'' then b
      else if a = [] \<or> last a = CHR ''/'' then a @ b
      else a @ ''/'' @ b)"

text \<open>\<open>os.path.basename(p)\<close>: what follows the last separator.\<close>

definition basename :: "string \<Rightarrow> string" where
  "basename p = rev (takeWhile (\<lambda>c. c \<noteq> CHR ''/'') (rev p))"

text \<open>
  \<open>os.path.splitext(p)[0]\<close> for a \<open>p\<close> without separator: \<open>p\<close> up to its last dot,
  when some character before that dot is not a dot; otherwise all of \<open>p\<close>.
\<close>

definition splitext_root :: "string \<Rightarrow> string" where
  "splitext_root p =
     (let after = takeWhile (\<lambda>c. c \<noteq> CHR ''.'') (rev p);
          stem = take (length p - length after - 1) p
      in if length after < length p \<and> list_ex (\<lambda>c. c \<noteq> CHR ''.'') stem then stem else p)"

section \<open>EIA 930 hourly load files (tell/data\_process\_eia\_930.py)\<close>

subsection \<open>list\_EIA\_930\_files\<close>

definition ba_name :: "string list" where
  "ba_name =
     [''AEC'', ''YAD'', ''AZPS'', ''AECI'', ''BPAT'', ''CISO'', ''CPLE'', ''CHPD'', ''DOPD'', ''DUK'',
      ''EPE'', ''ERCO'', ''EEI'', ''FPL'', ''FPC'', ''GVL'', ''HST'', ''IPCO'', ''IID'', ''JEA'', ''LDWP'',
      ''LGEE'', ''NWMT'', ''NEVP'', ''ISNE'', ''NSB'', ''NYIS'', ''OVEC'', ''PACW'', ''PACE'', ''GRMA'',
      ''FMPP'', ''GCPD'', ''PJM'', ''AVRN'', ''PSCO'', ''PGE'', ''PNM'', ''PSEI'', ''BANC'', ''SRP'', ''SCL'',
      ''SCEG'', ''SC'', ''SPA'', ''SOCO'', ''TPWR'', ''TAL'', ''TEC'', ''TVA'', ''TIDC'', ''WAUW'', ''AVA'',
      ''SEC'', ''TEPC'', ''WALC'', ''WACM'', ''SEPA'', ''GRIF'', ''GWA'', ''MISO'',
      ''DEAA'', ''CPLW'', ''GRID'', ''WWA'', ''SWPP'']"

text \<open>
  The loop appends one path per name, in order. The function takes the directory name
  only: it has no access to the file system.
\<close>

definition list_EIA_930_files :: "string \<Rightarrow> string list" where
  "list_EIA_930_files input_dir = map (\<lambda>i. path_join input_dir (i @ ''.xlsx'')) ba_name"

subsection \<open>eia\_data\_subset\<close>

text \<open>
  A sheet read by \<open>pd.read_excel\<close> is a table: column label to column. A workbook maps
  sheet names to sheets, the file system maps paths to workbooks.
\<close>

type_synonym sheet = "string \<rightharpoonup> cell list"
type_synonym workbook = "string \<rightharpoonup> sheet"
type_synonym filesystem = "string \<rightharpoonup> workbook"

text \<open>
  The \<open>.dt\<close> accessor exists on a column of dtype datetime64 only: every cell a point in
  time or missing, and at least one a point in time. A column holding text (a time that
  was not parsed) has dtype object.
\<close>

definition is_time :: "cell \<Rightarrow> bool" where
  "is_time c = (case c of Time _ \<Rightarrow> True | _ \<Rightarrow> False)"

definition is_datetimelike :: "cell list \<Rightarrow> bool" where
  "is_datetimelike col = (list_all (\<lambda>c. is_time c \<or> c = NA) col \<and> list_ex is_time col)"

definition strftime_col :: "(datetime \<Rightarrow> string) \<Rightarrow> cell list \<Rightarrow> cell list" where
  "strftime_col f col = map (\<lambda>c. case c of Time t \<Rightarrow> Str (f t) | _ \<Rightarrow> NA) col"

definition col_names :: "string list" where
  "col_names = [''Year'', ''Month'', ''Day'', ''Hour'', ''DF'', ''Adjusted D'', ''Adjusted NG'', ''Adjusted TI'']"

text \<open>The dictionary given to \<open>df.rename(columns=...)\<close>; a label it does not hold is kept.\<close>

definition rename_columns :: "string \<Rightarrow> string" where
  "rename_columns c =
     (if c = ''DF'' then ''Forecast_Demand_MWh'' @ [CHR 0x27]
      else if c = ''Adjusted D'' then ''Adjusted_Demand_MWh''
      else if c = ''Adjusted NG'' then ''Adjusted_Generation_MWh''
      else if c = ''Adjusted TI'' then ''Adjusted_Interchange_MWh''
      else c)"

definition nth_cell :: "cell list \<Rightarrow> nat \<Rightarrow> cell" where
  "nth_cell col i = (if i < length col then col ! i else NA)"

definition rows_of :: "nat \<Rightarrow> cell list list \<Rightarrow> cell list list" where
  "rows_of n cols = map (\<lambda>i. map (\<lambda>col. nth_cell col i) cols) [0..<n]"

text \<open>
  The result is the exception raised, or the file written: its path and its content.
  Reading raises for a missing file and for a missing sheet; \<open>df['UTC time']\<close> and
  \<open>df[col_names]\<close> raise KeyError for a missing label.
\<close>

definition eia_data_subset :: "filesystem \<Rightarrow> string \<Rightarrow> string \<Rightarrow> error + (string \<times> csv)" where
  "eia_data_subset fs file_string output_dir =
     (case fs file_string of
        None \<Rightarrow> Inl (FileNotFoundError file_string)
      | Some wb \<Rightarrow>
     (case wb ''Published Hourly Data'' of
        None \<Rightarrow> Inl (ValueError ''Published Hourly Data'')
      | Some df0 \<Rightarrow>
     (case df0 ''UTC time'' of
        None \<Rightarrow> Inl (KeyError [''UTC time''])
      | Some utc \<Rightarrow>
        if \<not> is_datetimelike utc then Inl (AttributeError ''dt'')
        else
          let df = df0(''Year'' \<mapsto> strftime_col (\<lambda>t. digits (dt_year t)) utc,
                       ''Month'' \<mapsto> strftime_col (\<lambda>t. pad2 (dt_month t)) utc,
                       ''Day'' \<mapsto> strftime_col (\<lambda>t. pad2 (dt_day t)) utc,
                       ''Hour'' \<mapsto> strftime_col (\<lambda>t. pad2 (dt_hour t)) utc);
              missing = filter (\<lambda>c. df c = None) col_names
          in if missing \<noteq> [] then Inl (KeyError missing)
             else
               let BA_name = splitext_root (basename file_string)
               in Inr (path_join output_dir (BA_name @ ''_hourly_load_data.csv''),
                       \<lparr>header = map rename_columns col_names,
                        body = rows_of (length utc) (map (\<lambda>c. the (df c)) col_names)\<rparr>))))"

subsection \<open>process\_eia\_930\<close>

text \<open>
  The tasks are run in list order, as joblib does with \<open>n_jobs=1\<close>. Nothing catches an
  exception of a task: it leaves the loop and \<open>process_eia_930\<close>. The state is the list
  of files written so far; the result pairs it with the exception, if one was raised.
  With more than one worker the tasks run concurrently, which is outside this model.
\<close>

fun run_tasks :: "filesystem \<Rightarrow> string \<Rightarrow> string list \<Rightarrow> (string \<times> csv) list
    \<Rightarrow> (string \<times> csv) list \<times> error option" where
  "run_tasks fs output_dir [] written = (written, None)"
| "run_tasks fs output_dir (i # rest) written =
     (case eia_data_subset fs i output_dir of
        Inl e \<Rightarrow> (written, Some e)
      | Inr w \<Rightarrow> run_tasks fs output_dir rest (written @ [w]))"

definition process_eia_930 :: "filesystem \<Rightarrow> string \<Rightarrow> string \<Rightarrow> (string \<times> csv) list \<times> error option" where
  "process_eia_930 fs input_dir output_dir =
     run_tasks fs output_dir (list_EIA_930_files input_dir) []"

section \<open>County population by balancing authority (tell/data\_process\_pop\_interp.py)\<close>

subsection \<open>fips\_pop\_yearly\<close>

text \<open>
  The population file read at line 20 is a table in wide form: the columns in file
  order, each a label and its values, one value per county. \<open>df_pop[key]\<close> raises
  KeyError with the labels of \<open>key\<close> that the table does not have.
\<close>

type_synonym pop_table = "(string \<times> int list) list"

record pop_row =
  population :: int
  county_FIPS :: int
  year :: int

definition pop_key :: "int \<Rightarrow> string" where
  "pop_key y = ''pop_'' @ str_int y"

text \<open>One pass of the loop body (lines 26 to 32): the rows of year \<open>y\<close>.\<close>

definition df_pop_yr :: "pop_table \<Rightarrow> int \<Rightarrow> error + pop_row list" where
  "df_pop_yr df_pop y =
     (let key = [pop_key y, ''county_FIPS''];
          missing = filter (\<lambda>c. map_of df_pop c = None) key
      in if missing \<noteq> [] then Inl (KeyError missing)
         else Inr (map (\<lambda>(p, c). \<lparr>population = p, county_FIPS = c, year = y\<rparr>)
                    (zip (the (map_of df_pop (pop_key y))) (the (map_of df_pop ''county_FIPS'')))))"

text \<open>The loop over \<open>range(start_year, end_year + 1)\<close>, with \<open>df\<close> the rows appended so far.\<close>

fun fips_loop :: "pop_table \<Rightarrow> int list \<Rightarrow> pop_row list \<Rightarrow> error + pop_row list" where
  "fips_loop df_pop [] df = Inr df"
| "fips_loop df_pop (y # ys) df =
     (case df_pop_yr df_pop y of
        Inl e \<Rightarrow> Inl e
      | Inr r \<Rightarrow> fips_loop df_pop ys (df @ r))"

definition fips_pop_yearly :: "pop_table \<Rightarrow> int \<Rightarrow> int \<Rightarrow> error + pop_row list" where
  "fips_pop_yearly df_pop start_year end_year = fips_loop df_pop [start_year..end_year] []"

subsection \<open>merge\_mapping\_data\<close>

text \<open>
  The county to BA table read at lines 53 to 59: \<open>glob\<close> is given a name without
  wildcard, so it finds the one file or nothing, and \<open>pd.concat\<close> raises ValueError for
  the empty list. A missing value of the file is \<open>None\<close>.
\<close>

type_synonym mapping_table = "(string \<times> int option list) list"

text \<open>
  A row of \<open>df_map\<close> (line 76), the assignment table with the BA names joined on, and a
  row of the table returned at line 84: a population row with the BA name of its
  county and year, or no name. The BA metadata lookup that gives the names
  (\<open>tell.metadata_eia\<close>) is not part of the sources, so \<open>df_map\<close> is an argument of
  the functions below.
\<close>

record map_row =
  map_county_FIPS :: int
  map_year :: int
  BA_Short_Name :: string

record merged_row = pop_row +
  BA_Name :: "string option"

text \<open>
  Lines 53 to 69. After the three columns are selected and their missing values set
  to 0, line 69 calls \<open>frame['BA_Number'].totuple()\<close>. A pandas Series has no attribute
  of that name, so the call raises AttributeError, whatever the table holds; lines 72
  to 84 are not reached (they also name \<open>metadata_eia\<close> and \<open>metadata\<close>, which the module
  does not define).
\<close>

definition merge_mapping_data :: "mapping_table option \<Rightarrow> pop_table \<Rightarrow> int \<Rightarrow> int
    \<Rightarrow> error + merged_row list" where
  "merge_mapping_data mapping_file df_pop start_year end_year =
     (case mapping_file of
        None \<Rightarrow> Inl (ValueError ''No objects to concatenate'')
      | Some frame \<Rightarrow>
          let missing = filter (\<lambda>c. map_of frame c = None) [''Year'', ''County_FIPS'', ''BA_Number'']
          in if missing \<noteq> [] then Inl (KeyError missing)
             else Inl (AttributeError ''totuple''))"

text \<open>
  Line 82, \<open>pd.merge(df_pop, df_map, how='left')\<close> on county and year: every row of
  \<open>df_pop\<close>, in order, once for each row of \<open>df_map\<close> with its county and year, and once
  without a BA name when there is none. \<open>left_match\<close> gives the rows for one row of
  \<open>df_pop\<close>.
\<close>

definition left_match :: "map_row list \<Rightarrow> pop_row \<Rightarrow> merged_row list" where
  "left_match df_map r =
     (case filter (\<lambda>m. map_county_FIPS m = county_FIPS r \<and> map_year m = year r) df_map of
        [] \<Rightarrow> [pop_row.extend r \<lparr>BA_Name = None\<rparr>]
      | ms \<Rightarrow> map (\<lambda>m. pop_row.extend r \<lparr>BA_Name = Some (BA_Short_Name m)\<rparr>) ms)"

definition merge_left :: "pop_row list \<Rightarrow> map_row list \<Rightarrow> merged_row list" where
  "merge_left df_pop df_map = concat (map (left_match df_map) df_pop)"

subsection \<open>ba\_pop\_sum\<close>

text \<open>
  Line 104, with \<open>df_pop\<close> the table bound at line 100:
  \<open>groupby(['BA_Short_Name', 'year'])['population'].sum().reset_index()\<close>. Rows without
  a BA name belong to no group; the groups come out in ascending order of their key.
  A row of the result is the key, BA name and year, with the sum of its group.
\<close>

type_synonym ba_year_pop = "(string \<times> int) \<times> int"

definition keyed :: "merged_row list \<Rightarrow> ba_year_pop list" where
  "keyed df_pop =
     map (\<lambda>r. ((the (BA_Name r), year r), population r)) (filter (\<lambda>r. BA_Name r \<noteq> None) df_pop)"

definition ba_pop_sum :: "merged_row list \<Rightarrow> ba_year_pop list" where
  "ba_pop_sum df_pop =
     map (\<lambda>k. (k, sum_list (map snd (filter (\<lambda>kv. fst kv = k) (keyed df_pop)))))
       (sort (remdups (map fst (keyed df_pop))))"

subsection \<open>ba\_pop\_interpolate\<close>

text \<open>
  Days are counted as Python's \<open>datetime\<close> does (\<open>_ymd2ord\<close>, day 1 is 0001-01-01). A
  point in time of an hourly index is its number of hours since 1970-01-01 00:00.
\<close>

definition is_leap :: "int \<Rightarrow> bool" where
  "is_leap y = (y mod 4 = 0 \<and> (y mod 100 \<noteq> 0 \<or> y mod 400 = 0))"

definition days_before_year :: "int \<Rightarrow> int" where
  "days_before_year y = (y - 1) * 365 + (y - 1) div 4 - (y - 1) div 100 + (y - 1) div 400"

definition days_before_month :: "int \<Rightarrow> nat \<Rightarrow> int" where
  "days_before_month y m =
     [0, 31, 59, 90, 120, 151, 181, 212, 243, 273, 304, 334] ! (m - 1)
       + (if 2 < m \<and> is_leap y then 1 else 0)"

definition ymd2ord :: "int \<Rightarrow> nat \<Rightarrow> nat \<Rightarrow> int" where
  "ymd2ord y m d = days_before_year y + days_before_month y m + int d"

definition hours_since_epoch :: "int \<Rightarrow> nat \<Rightarrow> nat \<Rightarrow> nat \<Rightarrow> int" where
  "hours_since_epoch y m d h = (ymd2ord y m d - ymd2ord 1970 1 1) * 24 + int h"

text \<open>
  A pandas point in time lies between 1677-09-21 00:12:43 and 2262-04-11 23:47:16; in
  whole hours, from 01:00 of the first day to 23:00 of the last.
\<close>

definition Timestamp_min :: int where
  "Timestamp_min = hours_since_epoch 1677 9 21 1"

definition Timestamp_max :: int where
  "Timestamp_max = hours_since_epoch 2262 4 11 23"

text \<open>
  The point in time that pandas reads from a year and a day of it, midnight of that
  day: from the year alone with \<open>format='%Y'\<close> (line 124, the day is January 1) and from
  the string \<open>'{year}-01-01'\<close> or \<open>'{year}-12-31'\<close> (line 131). A day outside the range
  of pandas raises OutOfBoundsDatetime. The docstrings ask for a year of four digits;
  what the date parser makes of any other year is not modelled, the model lets it
  fail, and no statement below is about such a year.
\<close>

definition to_timestamp :: "int \<Rightarrow> nat \<Rightarrow> nat \<Rightarrow> error + int" where
  "to_timestamp y m d =
     (if y < 1000 \<or> 9999 < y then Inl (ValueError (str_int y))
      else if hours_since_epoch y m d 0 < Timestamp_min \<or> Timestamp_max < hours_since_epoch y m d 0
        then Inl (OutOfBoundsDatetime (str_int y))
      else Inr (hours_since_epoch y m d 0))"

text \<open>
  Line 124, \<open>pd.to_datetime(df['year'], format='%Y')\<close>: every year of the column is
  converted, in row order, and the first one that cannot be raises.
\<close>

fun to_datetime :: "int list \<Rightarrow> error + int list" where
  "to_datetime [] = Inr []"
| "to_datetime (y # ys) =
     (case to_timestamp y 1 1 of
        Inl e \<Rightarrow> Inl e
      | Inr t \<Rightarrow> (case to_datetime ys of Inl e \<Rightarrow> Inl e | Inr ts \<Rightarrow> Inr (t # ts)))"

text \<open>
  A row label: the pivot's index holds the integers of the \<open>year\<close> column, the hourly
  index holds points in time. A label of one kind never equals one of the other.
\<close>

datatype label = Year int | Timestamp int

text \<open>A table in wide form: the row labels, and per column its label and values.\<close>

record frame =
  index :: "label list"
  columns :: "(string \<times> rat option list) list"

text \<open>
  Line 128, \<open>df.pivot(index='year', columns='name', values='pop')\<close>: ValueError when a
  (name, year) pair occurs twice; otherwise a row per year and a column per name, both
  ascending, with a missing value where the pair has no row. The renames of lines 125
  and 126 change labels only. Line 124 converts the years and drops the result.
\<close>

definition pivot :: "ba_year_pop list \<Rightarrow> error + frame" where
  "pivot df =
     (if \<not> distinct (map fst df) then Inl (ValueError ''Index contains duplicate entries, cannot reshape'')
      else
        let years = sort (remdups (map (\<lambda>r. snd (fst r)) df));
            names = sort (remdups (map (\<lambda>r. fst (fst r)) df))
        in Inr \<lparr>index = map Year years,
                columns = map (\<lambda>n. (n, map (\<lambda>y. map_option of_int (map_of df (n, y))) years)) names\<rparr>)"

text \<open>
  Line 131, \<open>pd.date_range(start='{start_year}-01-01', end='{end_year}-12-31', freq='H')\<close>:
  both strings are dates, read as midnight of that day; the index holds every hour
  from the first to the second, both included.
\<close>

definition date_range :: "int \<Rightarrow> int \<Rightarrow> label list" where
  "date_range start_year end_year =
     map Timestamp [hours_since_epoch start_year 1 1 0 .. hours_since_epoch end_year 12 31 0]"

text \<open>
  The call of line 131 as a whole: it raises when one of the two dates cannot be read,
  and gives the index above otherwise.
\<close>

definition pd_date_range :: "int \<Rightarrow> int \<Rightarrow> error + label list" where
  "pd_date_range start_year end_year =
     (case to_timestamp start_year 1 1 of
        Inl e \<Rightarrow> Inl e
      | Inr _ \<Rightarrow>
          (case to_timestamp end_year 12 31 of
             Inl e \<Rightarrow> Inl e
           | Inr _ \<Rightarrow> Inr (date_range start_year end_year)))"

text \<open>
  \<open>df.reindex(idx)\<close>: the row of each label of \<open>idx\<close> that is a label of \<open>df\<close>, and a row
  of missing values for each other label.
\<close>

definition reindex :: "frame \<Rightarrow> label list \<Rightarrow> frame" where
  "reindex df idx =
     \<lparr>index = idx,
      columns = map (\<lambda>(n, col). (n, map (\<lambda>l. case map_of (zip (index df) col) l of
                                              None \<Rightarrow> None | Some v \<Rightarrow> v) idx)) (columns df)\<rparr>"

text \<open>
  \<open>interpolate(method='linear')\<close> on one column. The method ignores the index and takes
  the positions as abscissa. A missing value between two known ones lies on the line
  through the nearest known value before and after; one after the last known value
  repeats it; one before the first known value stays missing.
\<close>

definition valid_before :: "rat option list \<Rightarrow> nat \<Rightarrow> nat list" where
  "valid_before ys i = filter (\<lambda>j. ys ! j \<noteq> None) (rev [0..<i])"

definition valid_after :: "rat option list \<Rightarrow> nat \<Rightarrow> nat list" where
  "valid_after ys i = filter (\<lambda>j. ys ! j \<noteq> None) [Suc i..<length ys]"

definition interp_at :: "rat option list \<Rightarrow> nat \<Rightarrow> rat option" where
  "interp_at ys i =
     (case ys ! i of
        Some v \<Rightarrow> Some v
      | None \<Rightarrow>
          (case valid_before ys i of
             [] \<Rightarrow> None
           | j # _ \<Rightarrow>
               (case valid_after ys i of
                  [] \<Rightarrow> ys ! j
                | k # _ \<Rightarrow>
                    Some ((the (ys ! k) - the (ys ! j)) / of_nat (k - j) * of_nat (i - j)
                          + the (ys ! j)))))"

definition interpolate_linear :: "rat option list \<Rightarrow> rat option list" where
  "interpolate_linear ys = map (interp_at ys) [0..<length ys]"

definition interpolate :: "frame \<Rightarrow> frame" where
  "interpolate df = df\<lparr>columns := map (\<lambda>(n, col). (n, interpolate_linear col)) (columns df)\<rparr>"

text \<open>Line 136, \<open>res.to_csv(..., index=False, header=True)\<close>.\<close>

definition cell_of :: "rat option \<Rightarrow> cell" where
  "cell_of v = (case v of None \<Rightarrow> NA | Some x \<Rightarrow> Num x)"

definition to_csv :: "frame \<Rightarrow> csv" where
  "to_csv df =
     \<lparr>header = map fst (columns df),
      body = rows_of (length (index df)) (map (\<lambda>(n, col). map cell_of col) (columns df))\<rparr>"

text \<open>
  Lines 124 to 138, the body of \<open>ba_pop_interpolate\<close> after line 123, as a function of
  the table \<open>df\<close> that line 123 binds. Line 124 converts the years and drops the result,
  so only its exception matters. The result is the exception raised, or the file
  written and the table returned.
\<close>

definition ba_pop_interpolate_body :: "ba_year_pop list \<Rightarrow> string \<Rightarrow> int \<Rightarrow> int
    \<Rightarrow> error + ((string \<times> csv) \<times> frame)" where
  "ba_pop_interpolate_body df output_dir start_year end_year =
     (case to_datetime (map (\<lambda>r. snd (fst r)) df) of
        Inl e \<Rightarrow> Inl e
      | Inr _ \<Rightarrow>
     (case pivot df of
        Inl e \<Rightarrow> Inl e
      | Inr wide \<Rightarrow>
     (case pd_date_range start_year end_year of
        Inl e \<Rightarrow> Inl e
      | Inr idx \<Rightarrow>
          let res = interpolate (reindex wide idx)
          in Inr ((path_join output_dir ''hourly_population.csv'', to_csv res), res))))"

text \<open>
  The function as the module has it. Line 123 calls \<open>ba_pop_sum\<close> on the two
  directories, whose line 100 calls \<open>merge_mapping_data\<close> and whose line 104 is the sum
  above; the body follows. The files of the two directories are the arguments.
\<close>

definition ba_pop_interpolate :: "mapping_table option \<Rightarrow> pop_table \<Rightarrow> string \<Rightarrow> int \<Rightarrow> int
    \<Rightarrow> error + ((string \<times> csv) \<times> frame)" where
  "ba_pop_interpolate mapping_file df_pop output_dir start_year end_year =
     (case merge_mapping_data mapping_file df_pop start_year end_year of
        Inl e \<Rightarrow> Inl e
      | Inr merged \<Rightarrow> ba_pop_interpolate_body (ba_pop_sum merged) output_dir start_year end_year)"

section \<open>Notions used in the statements\<close>

text \<open>
  The rows that one pass of the loop of \<open>fips_pop_yearly\<close> appends for year \<open>y\<close>, when
  the table has the column of \<open>y\<close> and \<open>fips\<close> is its county column.
\<close>

definition year_rows :: "pop_table \<Rightarrow> int list \<Rightarrow> int \<Rightarrow> pop_row list" where
  "year_rows df_pop fips y =
     map (\<lambda>(p, c). \<lparr>population = p, county_FIPS = c, year = y\<rparr>)
       (zip (the (map_of df_pop (pop_key y))) fips)"

text \<open>
  The value that the pivot of \<open>df\<close> holds for BA \<open>n\<close> at row label \<open>l\<close>: the population
  of that BA and year for a year label, as a float, and none for any other label.
\<close>

definition annual_at :: "ba_year_pop list \<Rightarrow> string \<Rightarrow> label \<Rightarrow> rat option" where
  "annual_at df n l =
     (case l of Year y \<Rightarrow> map_option of_int (map_of df (n, y)) | Timestamp t \<Rightarrow> None)"

text \<open>The value of a table at a column and a row label; none where either is absent.\<close>

definition value_at :: "frame \<Rightarrow> string \<Rightarrow> label \<Rightarrow> rat option" where
  "value_at df n l =
     (case map_of (columns df) n of
        None \<Rightarrow> None
      | Some col \<Rightarrow> (case map_of (zip (index df) col) l of None \<Rightarrow> None | Some v \<Rightarrow> v))"

text \<open>The days from January 1 of the first year to December 31 of the last, both included.\<close>

definition days_inclusive :: "int \<Rightarrow> int \<Rightarrow> int" where
  "days_inclusive start_year end_year = ymd2ord end_year 12 31 - ymd2ord start_year 1 1 + 1"

section \<open>Example inputs\<close>

text \<open>
  A sheet of one hour with a parsed time, the same sheet with the time as text, and a
  file system that holds a workbook at every path: the workbook at \<open>in/AZPS.xlsx\<close>
  has the text time, every other one the parsed time.
\<close>

definition hourly_sheet :: sheet where
  "hourly_sheet =
     [''UTC time'' \<mapsto> [Time \<lparr>dt_year = 2015, dt_month = 7, dt_day = 1, dt_hour = 5\<rparr>],
      ''DF'' \<mapsto> [Num 1], ''Adjusted D'' \<mapsto> [Num 2], ''Adjusted NG'' \<mapsto> [Num 3],
      ''Adjusted TI'' \<mapsto> [Num 4]]"

definition text_time_sheet :: sheet where
  "text_time_sheet = hourly_sheet(''UTC time'' \<mapsto> [Str ''July 1st, 5 am''])"

definition fs_AZPS_malformed :: filesystem where
  "fs_AZPS_malformed p =
     (if p = ''in/AZPS.xlsx'' then Some [''Published Hourly Data'' \<mapsto> text_time_sheet]
      else Some [''Published Hourly Data'' \<mapsto> hourly_sheet])"

text \<open>The file that \<open>eia_data_subset\<close> writes for \<open>hourly_sheet\<close>.\<close>

definition hourly_csv :: csv where
  "hourly_csv =
     \<lparr>header = [''Year'', ''Month'', ''Day'', ''Hour'', ''Forecast_Demand_MWh'' @ [CHR 0x27],
                ''Adjusted_Demand_MWh'', ''Adjusted_Generation_MWh'', ''Adjusted_Interchange_MWh''],
      body = [[Str ''2015'', Str ''07'', Str ''01'', Str ''05'', Num 1, Num 2, Num 3, Num 4]]\<rparr>"

text \<open>The population table of the spec's example: two counties, two years.\<close>

definition county_populations :: pop_table where
  "county_populations =
     [(''county_FIPS'', [1, 2]), (''pop_2015'', [100, 50]), (''pop_2016'', [200, 60])]"

text \<open>
  County populations in long form, and an assignment table with BA names: county 3
  has no assignment, and no county has two in one year.
\<close>

definition county_years :: "pop_row list" where
  "county_years =
     [\<lparr>population = 100, county_FIPS = 1, year = 2015\<rparr>,
      \<lparr>population = 50, county_FIPS = 2, year = 2015\<rparr>,
      \<lparr>population = 200, county_FIPS = 1, year = 2016\<rparr>,
      \<lparr>population = 60, county_FIPS = 2, year = 2016\<rparr>,
      \<lparr>population = 7, county_FIPS = 3, year = 2016\<rparr>]"

definition testba_map :: "map_row list" where
  "testba_map =
     [\<lparr>map_county_FIPS = 1, map_year = 2015, BA_Short_Name = ''TESTBA''\<rparr>,
      \<lparr>map_county_FIPS = 2, map_year = 2015, BA_Short_Name = ''TESTBA''\<rparr>,
      \<lparr>map_county_FIPS = 1, map_year = 2016, BA_Short_Name = ''TESTBA''\<rparr>,
      \<lparr>map_county_FIPS = 2, map_year = 2016, BA_Short_Name = ''OTHER''\<rparr>]"

text \<open>An assignment table whose only BA number, 999, is not in the BA metadata.\<close>

definition unknown_ba_assignment :: mapping_table where
  "unknown_ba_assignment =
     [(''Year'', [Some 2015]), (''County_FIPS'', [Some 1]), (''BA_Number'', [Some 999])]"

text \<open>
  The annual table of the spec's example, one BA with two anchors, and the same table
  with a second BA.
\<close>

definition testba_annual :: "ba_year_pop list" where
  "testba_annual = [((''TESTBA'', 2015), 150), ((''TESTBA'', 2016), 260)]"

definition testba_other_annual :: "ba_year_pop list" where
  "testba_other_annual =
     [((''OTHER'', 2016), 60), ((''TESTBA'', 2015), 150), ((''TESTBA'', 2016), 260)]"


section \<open>Properties of the EIA 930 conversion\<close>

subsection \<open>Paths\<close>

lemma length_ba_name: "length ba_name = 66"
  by (simp add: ba_name_def)

lemma path_join_xlsx:
  "path_join d (n @ ''.xlsx'') =
     (if n \<noteq> [] \<and> hd n = CHR ''/'' then n @ ''.xlsx''
      else if d = [] \<or> last d = CHR ''/'' then d @ n @ ''.xlsx''
      else d @ ''/'' @ n @ ''.xlsx'')"
  by (cases n) (simp_all add: path_join_def)

lemma ba_name_relative: "list_all (\<lambda>n. \<not> (n \<noteq> [] \<and> hd n = CHR ''/'')) ba_name"
  by (simp add: ba_name_def)

lemma list_files_sep:
  "d \<noteq> [] \<Longrightarrow> last d \<noteq> CHR ''/'' \<Longrightarrow>
   list_EIA_930_files d = map (\<lambda>n. d @ ''/'' @ n @ ''.xlsx'') ba_name"
  using ba_name_relative unfolding list_EIA_930_files_def list_all_iff
  by (intro map_cong refl) (simp add: path_join_xlsx)

lemma list_files_nosep:
  "d = [] \<or> last d = CHR ''/'' \<Longrightarrow>
   list_EIA_930_files d = map (\<lambda>n. d @ n @ ''.xlsx'') ba_name"
  using ba_name_relative unfolding list_EIA_930_files_def list_all_iff
  by (intro map_cong refl) (auto simp add: path_join_xlsx)

lemma hd_files: "hd (list_EIA_930_files d) = path_join d ''AEC.xlsx''"
  by (simp add: list_EIA_930_files_def ba_name_def)

lemma last_files: "last (list_EIA_930_files d) = path_join d ''SWPP.xlsx''"
  by (simp add: list_EIA_930_files_def ba_name_def)

lemma process_no_files:
  "process_eia_930 Map.empty d out = ([], Some (FileNotFoundError (path_join d ''AEC.xlsx'')))"
  by (simp add: process_eia_930_def list_EIA_930_files_def ba_name_def eia_data_subset_def)

text \<open>
  Claim C10, as amended. For every directory name, \<open>list_EIA_930_files\<close> returns 66
  paths, one per name of the fixed list, from AEC to SWPP, each the join of the
  directory with \<open>name.xlsx\<close>: \<open>dir/name.xlsx\<close> when the directory name is not empty
  and does not end with a separator, and \<open>dir\<close> directly followed by \<open>name.xlsx\<close>
  otherwise. Nothing is looked up in the file system: with no file at all, the first
  path is still given to the conversion, which raises FileNotFoundError for it.
\<close>

theorem list_EIA_930_files_paths:
  "length (list_EIA_930_files input_dir) = 66
   \<and> hd (list_EIA_930_files input_dir) = path_join input_dir ''AEC.xlsx''
   \<and> last (list_EIA_930_files input_dir) = path_join input_dir ''SWPP.xlsx''
   \<and> (input_dir \<noteq> [] \<and> last input_dir \<noteq> CHR ''/'' \<longrightarrow>
        list_EIA_930_files input_dir = map (\<lambda>n. input_dir @ ''/'' @ n @ ''.xlsx'') ba_name)
   \<and> (input_dir = [] \<or> last input_dir = CHR ''/'' \<longrightarrow>
        list_EIA_930_files input_dir = map (\<lambda>n. input_dir @ n @ ''.xlsx'') ba_name)
   \<and> process_eia_930 Map.empty input_dir output_dir
        = ([], Some (FileNotFoundError (hd (list_EIA_930_files input_dir))))"
proof -
  have "length (list_EIA_930_files input_dir) = 66"
    by (simp add: list_EIA_930_files_def length_ba_name)
  moreover note hd_files last_files
  moreover have "input_dir \<noteq> [] \<and> last input_dir \<noteq> CHR ''/'' \<longrightarrow>
      list_EIA_930_files input_dir = map (\<lambda>n. input_dir @ ''/'' @ n @ ''.xlsx'') ba_name"
    using list_files_sep by blast
  moreover have "input_dir = [] \<or> last input_dir = CHR ''/'' \<longrightarrow>
      list_EIA_930_files input_dir = map (\<lambda>n. input_dir @ n @ ''.xlsx'') ba_name"
    using list_files_nosep by blast
  moreover have "process_eia_930 Map.empty input_dir output_dir
      = ([], Some (FileNotFoundError (hd (list_EIA_930_files input_dir))))"
    by (simp add: process_no_files hd_files)
  ultimately show ?thesis by blast
qed

theorem list_EIA_930_files_paths_witness:
  "list_EIA_930_files ''in'' = map (\<lambda>n. ''in/'' @ n @ ''.xlsx'') ba_name
   \<and> list_EIA_930_files ''data/'' = map (\<lambda>n. ''data/'' @ n @ ''.xlsx'') ba_name
   \<and> length (list_EIA_930_files ''in'') = 66"
proof -
  have a: "''in'' \<noteq> [] \<and> last ''in'' \<noteq> CHR ''/''" by simp
  have b: "''data/'' = [] \<or> last ''data/'' = CHR ''/''" by simp
  from list_EIA_930_files_paths [of "''in''" "''out''"] a
  have 1: "list_EIA_930_files ''in'' = map (\<lambda>n. ''in'' @ ''/'' @ n @ ''.xlsx'') ba_name"
    and 2: "length (list_EIA_930_files ''in'') = 66"
    by blast+
  from list_EIA_930_files_paths [of "''data/''" "''out''"] b
  have 3: "list_EIA_930_files ''data/'' = map (\<lambda>n. ''data/'' @ n @ ''.xlsx'') ba_name"
    by blast
  from 1 2 3 show ?thesis by simp
qed

theorem list_EIA_930_files_form_counterexample:
  "hd (list_EIA_930_files ''data/'') = ''data/AEC.xlsx''
   \<and> hd (list_EIA_930_files ''data/'') \<noteq> ''data/'' @ ''/'' @ ''AEC'' @ ''.xlsx''
   \<and> hd (list_EIA_930_files []) = ''AEC.xlsx''
   \<and> hd (list_EIA_930_files []) \<noteq> [] @ ''/'' @ ''AEC'' @ ''.xlsx''"
  by (simp add: hd_files path_join_def)

subsection \<open>One file\<close>

lemma eia_data_subset_hourly:
  "fs f = Some [''Published Hourly Data'' \<mapsto> hourly_sheet] \<Longrightarrow>
   eia_data_subset fs f out
     = Inr (path_join out (splitext_root (basename f) @ ''_hourly_load_data.csv''), hourly_csv)"
  by (simp add: eia_data_subset_def hourly_sheet_def is_datetimelike_def is_time_def
      strftime_col_def col_names_def rename_columns_def rows_of_def nth_cell_def hourly_csv_def
      pad2_def digits.simps digit_char_def Let_def)

lemma eia_data_subset_text_time:
  "fs f = Some [''Published Hourly Data'' \<mapsto> text_time_sheet] \<Longrightarrow>
   eia_data_subset fs f out = Inl (AttributeError ''dt'')"
  by (simp add: eia_data_subset_def text_time_sheet_def hourly_sheet_def is_datetimelike_def
      is_time_def)

lemma eia_data_subset_header:
  "eia_data_subset fs f out = Inr (p, c) \<Longrightarrow> header c = header hourly_csv"
  by (auto simp add: eia_data_subset_def Let_def hourly_csv_def col_names_def rename_columns_def
      split: option.splits if_splits)

lemma AZPS_malformed_isl:
  "isl (eia_data_subset fs_AZPS_malformed f out) = (f = ''in/AZPS.xlsx'')"
proof (cases "f = ''in/AZPS.xlsx''")
  case True
  then have "fs_AZPS_malformed f = Some [''Published Hourly Data'' \<mapsto> text_time_sheet]"
    by (simp add: fs_AZPS_malformed_def)
  from eia_data_subset_text_time [of fs_AZPS_malformed f, OF this] True show ?thesis by simp
next
  case False
  then have "fs_AZPS_malformed f = Some [''Published Hourly Data'' \<mapsto> hourly_sheet]"
    by (simp add: fs_AZPS_malformed_def)
  from eia_data_subset_hourly [of fs_AZPS_malformed f, OF this] False show ?thesis by simp
qed

text \<open>
  Claim C9, at a file that converts. The header written by \<open>eia_data_subset\<close> has the
  eight columns of the claim in its order, but the fifth label is
  \<open>Forecast_Demand_MWh'\<close>, with an apostrophe at its end (the value in the rename
  dictionary at line 53), and not \<open>Forecast_Demand_MWh\<close> as the comment of lines 51
  and 52 and the claim name it.
\<close>

theorem eia_data_subset_header_apostrophe:
  "eia_data_subset fs_AZPS_malformed ''in/AEC.xlsx'' ''out''
     = Inr (''out/AEC_hourly_load_data.csv'',
            \<lparr>header = [''Year'', ''Month'', ''Day'', ''Hour'', ''Forecast_Demand_MWh'' @ [CHR 0x27],
                ''Adjusted_Demand_MWh'', ''Adjusted_Generation_MWh'', ''Adjusted_Interchange_MWh''],
             body = [[Str ''2015'', Str ''07'', Str ''01'', Str ''05'', Num 1, Num 2, Num 3, Num 4]]\<rparr>)
   \<and> header (snd (projr (eia_data_subset fs_AZPS_malformed ''in/AEC.xlsx'' ''out'')))
       \<noteq> [''Year'', ''Month'', ''Day'', ''Hour'', ''Forecast_Demand_MWh'',
           ''Adjusted_Demand_MWh'', ''Adjusted_Generation_MWh'', ''Adjusted_Interchange_MWh'']"
proof -
  have "fs_AZPS_malformed ''in/AEC.xlsx'' = Some [''Published Hourly Data'' \<mapsto> hourly_sheet]"
    by (simp add: fs_AZPS_malformed_def)
  from eia_data_subset_hourly [of fs_AZPS_malformed "''in/AEC.xlsx''", OF this, of "''out''"]
  show ?thesis
    by (simp add: hourly_csv_def path_join_def basename_def splitext_root_def)
qed

subsection \<open>The batch\<close>

lemma run_tasks_stop:
  "\<forall>g\<in>set pre. \<not> isl (eia_data_subset fs g out) \<Longrightarrow> eia_data_subset fs f out = Inl e \<Longrightarrow>
   run_tasks fs out (pre @ f # post) w
     = (w @ map (\<lambda>g. projr (eia_data_subset fs g out)) pre, Some e)"
proof (induction pre arbitrary: w)
  case Nil
  then show ?case by simp
next
  case (Cons g pre)
  then obtain r where "eia_data_subset fs g out = Inr r"
    by (cases "eia_data_subset fs g out") auto
  with Cons show ?case by simp
qed

lemma run_tasks_all:
  "\<forall>g\<in>set fl. \<not> isl (eia_data_subset fs g out) \<Longrightarrow>
   run_tasks fs out fl w = (w @ map (\<lambda>g. projr (eia_data_subset fs g out)) fl, None)"
proof (induction fl arbitrary: w)
  case Nil
  then show ?case by simp
next
  case (Cons g fl)
  then obtain r where "eia_data_subset fs g out = Inr r"
    by (cases "eia_data_subset fs g out") auto
  with Cons show ?case by simp
qed

lemma files_in:
  "list_EIA_930_files ''in''
     = [''in/AEC.xlsx'', ''in/YAD.xlsx''] @ ''in/AZPS.xlsx''
         # map (\<lambda>n. ''in/'' @ n @ ''.xlsx'') (drop 3 ba_name)"
  by (simp add: list_EIA_930_files_def ba_name_def path_join_def)

lemma files_in_rest:
  "list_all (\<lambda>f. f \<noteq> ''in/AZPS.xlsx'') (map (\<lambda>n. ''in/'' @ n @ ''.xlsx'') (drop 3 ba_name))"
  by (simp add: ba_name_def)

lemma AZPS_malformed_two_written:
  "process_eia_930 fs_AZPS_malformed ''in'' ''out''
     = ([(''out/AEC_hourly_load_data.csv'', hourly_csv), (''out/YAD_hourly_load_data.csv'', hourly_csv)],
        Some (AttributeError ''dt''))"
proof -
  have pre: "\<forall>g\<in>set [''in/AEC.xlsx'', ''in/YAD.xlsx'']. \<not> isl (eia_data_subset fs_AZPS_malformed g ''out'')"
    by (simp add: AZPS_malformed_isl)
  have bad: "eia_data_subset fs_AZPS_malformed ''in/AZPS.xlsx'' ''out'' = Inl (AttributeError ''dt'')"
    by (rule eia_data_subset_text_time) (simp add: fs_AZPS_malformed_def)
  have good: "\<And>f. f \<noteq> ''in/AZPS.xlsx'' \<Longrightarrow> eia_data_subset fs_AZPS_malformed f ''out''
      = Inr (path_join ''out'' (splitext_root (basename f) @ ''_hourly_load_data.csv''), hourly_csv)"
    by (rule eia_data_subset_hourly) (simp add: fs_AZPS_malformed_def)
  show ?thesis
    unfolding process_eia_930_def files_in run_tasks_stop [OF pre bad]
    by (simp add: good path_join_def basename_def splitext_root_def)
qed

text \<open>
  Claim C8, as amended. \<open>process_eia_930\<close> has no handler: run in list order (one
  worker), it converts the files that come before the first one whose conversion
  raises, and that exception ends the batch; no later file is converted and nothing
  is reported per file. When no conversion raises, every file of the list is
  converted.
\<close>

theorem process_eia_930_first_failure:
  "(list_EIA_930_files input_dir = pre @ f # post
      \<and> (\<forall>g\<in>set pre. \<not> isl (eia_data_subset fs g output_dir))
      \<and> eia_data_subset fs f output_dir = Inl e
    \<longrightarrow> process_eia_930 fs input_dir output_dir
          = (map (\<lambda>g. projr (eia_data_subset fs g output_dir)) pre, Some e))
   \<and> ((\<forall>g\<in>set (list_EIA_930_files input_dir). \<not> isl (eia_data_subset fs g output_dir))
    \<longrightarrow> process_eia_930 fs input_dir output_dir
          = (map (\<lambda>g. projr (eia_data_subset fs g output_dir)) (list_EIA_930_files input_dir), None))"
proof (intro conjI impI)
  assume a: "list_EIA_930_files input_dir = pre @ f # post
      \<and> (\<forall>g\<in>set pre. \<not> isl (eia_data_subset fs g output_dir))
      \<and> eia_data_subset fs f output_dir = Inl e"
  then have "run_tasks fs output_dir (pre @ f # post) []
      = ([] @ map (\<lambda>g. projr (eia_data_subset fs g output_dir)) pre, Some e)"
    by (intro run_tasks_stop) simp_all
  with a show "process_eia_930 fs input_dir output_dir
      = (map (\<lambda>g. projr (eia_data_subset fs g output_dir)) pre, Some e)"
    by (simp add: process_eia_930_def)
next
  assume "\<forall>g\<in>set (list_EIA_930_files input_dir). \<not> isl (eia_data_subset fs g output_dir)"
  from run_tasks_all [OF this, of "[]"]
  show "process_eia_930 fs input_dir output_dir
      = (map (\<lambda>g. projr (eia_data_subset fs g output_dir)) (list_EIA_930_files input_dir), None)"
    by (simp add: process_eia_930_def)
qed

theorem process_eia_930_first_failure_witness:
  "list_EIA_930_files ''in''
     = [''in/AEC.xlsx'', ''in/YAD.xlsx''] @ ''in/AZPS.xlsx''
         # map (\<lambda>n. ''in/'' @ n @ ''.xlsx'') (drop 3 ba_name)
   \<and> eia_data_subset fs_AZPS_malformed ''in/AZPS.xlsx'' ''out'' = Inl (AttributeError ''dt'')
   \<and> process_eia_930 fs_AZPS_malformed ''in'' ''out''
       = (map (\<lambda>g. projr (eia_data_subset fs_AZPS_malformed g ''out'')) [''in/AEC.xlsx'', ''in/YAD.xlsx''],
          Some (AttributeError ''dt''))"
proof -
  have pre: "\<forall>g\<in>set [''in/AEC.xlsx'', ''in/YAD.xlsx'']. \<not> isl (eia_data_subset fs_AZPS_malformed g ''out'')"
    by (simp add: AZPS_malformed_isl)
  have bad: "eia_data_subset fs_AZPS_malformed ''in/AZPS.xlsx'' ''out'' = Inl (AttributeError ''dt'')"
    by (rule eia_data_subset_text_time) (simp add: fs_AZPS_malformed_def)
  from process_eia_930_first_failure [of "''in''" "[''in/AEC.xlsx'', ''in/YAD.xlsx'']"
      "''in/AZPS.xlsx''" "map (\<lambda>n. ''in/'' @ n @ ''.xlsx'') (drop 3 ba_name)"
      fs_AZPS_malformed "''out''" "AttributeError ''dt''"] files_in pre bad
  show ?thesis by blast
qed

theorem process_eia_930_isolation_counterexample:
  "length (filter (\<lambda>f. isl (eia_data_subset fs_AZPS_malformed f ''out'')) (list_EIA_930_files ''in'')) = 1
   \<and> length (list_EIA_930_files ''in'') = 66
   \<and> length (fst (process_eia_930 fs_AZPS_malformed ''in'' ''out'')) = 2
   \<and> snd (process_eia_930 fs_AZPS_malformed ''in'' ''out'') = Some (AttributeError ''dt'')"
proof -
  have "length (filter (\<lambda>f. isl (eia_data_subset fs_AZPS_malformed f ''out''))
      (list_EIA_930_files ''in'')) = 1"
    unfolding AZPS_malformed_isl files_in using files_in_rest
    by (simp add: list_all_iff filter_empty_conv [THEN iffD2])
  moreover have "length (list_EIA_930_files ''in'') = 66"
    by (simp add: list_EIA_930_files_def length_ba_name)
  ultimately show ?thesis by (simp add: AZPS_malformed_two_written)
qed

section \<open>Properties of the population tables\<close>

subsection \<open>fips\_pop\_yearly\<close>

lemma df_pop_yr_present:
  "map_of df_pop ''county_FIPS'' = Some fips \<Longrightarrow> map_of df_pop (pop_key y) \<noteq> None \<Longrightarrow>
   df_pop_yr df_pop y = Inr (year_rows df_pop fips y)"
  by (auto simp add: df_pop_yr_def year_rows_def)

lemma df_pop_yr_absent:
  "map_of df_pop ''county_FIPS'' = Some fips \<Longrightarrow> map_of df_pop (pop_key y) = None \<Longrightarrow>
   df_pop_yr df_pop y = Inl (KeyError [pop_key y])"
  by (simp add: df_pop_yr_def)

lemma fips_loop_present:
  "map_of df_pop ''county_FIPS'' = Some fips \<Longrightarrow>
   \<forall>y\<in>set ys. map_of df_pop (pop_key y) \<noteq> None \<Longrightarrow>
   fips_loop df_pop ys df = Inr (df @ concat (map (year_rows df_pop fips) ys))"
  by (induction ys arbitrary: df) (simp_all add: df_pop_yr_present)

lemma fips_loop_absent:
  "map_of df_pop ''county_FIPS'' = Some fips \<Longrightarrow>
   \<forall>y\<in>set pre. map_of df_pop (pop_key y) \<noteq> None \<Longrightarrow>
   map_of df_pop (pop_key y) = None \<Longrightarrow>
   fips_loop df_pop (pre @ y # post) df = Inl (KeyError [pop_key y])"
  by (induction pre arbitrary: df) (simp_all add: df_pop_yr_present df_pop_yr_absent)

lemma length_year_rows:
  assumes "map_of df_pop ''county_FIPS'' = Some fips"
    and "\<forall>(c, v)\<in>set df_pop. length v = length fips"
    and "map_of df_pop (pop_key y) \<noteq> None"
  shows "length (year_rows df_pop fips y) = length fips"
proof -
  from assms(3) obtain ps where ps: "map_of df_pop (pop_key y) = Some ps" by auto
  then have "(pop_key y, ps) \<in> set df_pop" by (rule map_of_SomeD)
  with assms(2) have "length ps = length fips" by auto
  with ps show ?thesis by (simp add: year_rows_def)
qed

lemma length_concat_const:
  "\<forall>y\<in>set ys. length (f y) = n \<Longrightarrow> length (concat (map f ys)) = length ys * n"
  by (induction ys) simp_all

text \<open>
  Claim C5, as amended. Let the population table have its county column, with as many
  values in every column as there are counties. If the column of some year of the
  range is absent, \<open>fips_pop_yearly\<close> fails with the KeyError of pandas for the label
  of such a column; the code has no exception named DataError.
  Otherwise it returns the table in long form, for each year of the range in turn one
  row per county with that county, that year and the county's population of the year:
  (end\_year - start\_year + 1) times the number of counties rows.
\<close>

theorem fips_pop_yearly_rows:
  assumes fips: "map_of df_pop ''county_FIPS'' = Some fips"
    and wf: "\<forall>(c, v)\<in>set df_pop. length v = length fips"
  shows "((\<exists>y\<in>{start_year..end_year}. map_of df_pop (pop_key y) = None) \<longrightarrow>
            (\<exists>y\<in>{start_year..end_year}. map_of df_pop (pop_key y) = None \<and>
               fips_pop_yearly df_pop start_year end_year = Inl (KeyError [pop_key y])))
       \<and> ((\<forall>y\<in>{start_year..end_year}. map_of df_pop (pop_key y) \<noteq> None) \<longrightarrow>
            (\<exists>rows. fips_pop_yearly df_pop start_year end_year = Inr rows
               \<and> rows = concat (map (year_rows df_pop fips) [start_year..end_year])
               \<and> length rows = nat (end_year - start_year + 1) * length fips))"
proof (intro conjI impI)
  assume "\<exists>y\<in>{start_year..end_year}. map_of df_pop (pop_key y) = None"
  then have "\<exists>y\<in>set [start_year..end_year]. map_of df_pop (pop_key y) = None" by simp
  then obtain pre y post where split: "[start_year..end_year] = pre @ y # post"
    and y: "map_of df_pop (pop_key y) = None"
    and pre: "\<forall>z\<in>set pre. map_of df_pop (pop_key z) \<noteq> None"
    by (auto simp only: split_list_first_prop_iff)
  have "y \<in> set [start_year..end_year]" unfolding split by simp
  then have "y \<in> {start_year..end_year}" by simp
  moreover have "fips_pop_yearly df_pop start_year end_year = Inl (KeyError [pop_key y])"
    unfolding fips_pop_yearly_def split by (rule fips_loop_absent [OF fips pre y])
  ultimately show "\<exists>y\<in>{start_year..end_year}. map_of df_pop (pop_key y) = None \<and>
      fips_pop_yearly df_pop start_year end_year = Inl (KeyError [pop_key y])"
    using y by blast
next
  assume "\<forall>y\<in>{start_year..end_year}. map_of df_pop (pop_key y) \<noteq> None"
  then have all: "\<forall>y\<in>set [start_year..end_year]. map_of df_pop (pop_key y) \<noteq> None" by simp
  have res: "fips_pop_yearly df_pop start_year end_year
      = Inr (concat (map (year_rows df_pop fips) [start_year..end_year]))"
    unfolding fips_pop_yearly_def using fips_loop_present [OF fips all, of "[]"] by simp
  have "\<forall>y\<in>set [start_year..end_year]. length (year_rows df_pop fips y) = length fips"
    using length_year_rows [OF fips wf] all by blast
  then have "length (concat (map (year_rows df_pop fips) [start_year..end_year]))
      = length [start_year..end_year] * length fips"
    by (rule length_concat_const)
  then have "length (concat (map (year_rows df_pop fips) [start_year..end_year]))
      = nat (end_year - start_year + 1) * length fips"
    by simp
  with res show "\<exists>rows. fips_pop_yearly df_pop start_year end_year = Inr rows
               \<and> rows = concat (map (year_rows df_pop fips) [start_year..end_year])
               \<and> length rows = nat (end_year - start_year + 1) * length fips"
    by simp
qed

lemma pop_key_2015: "pop_key 2015 = ''pop_2015''"
  by (simp add: pop_key_def str_int_def digits.simps digit_char_def)

lemma pop_key_2016: "pop_key 2016 = ''pop_2016''"
  by (simp add: pop_key_def str_int_def digits.simps digit_char_def)

lemma pop_key_2017: "pop_key 2017 = ''pop_2017''"
  by (simp add: pop_key_def str_int_def digits.simps digit_char_def)

lemma upto_2015_2016: "[2015..2016::int] = [2015, 2016]"
  by (simp add: upto.simps)

theorem fips_pop_yearly_rows_witness:
  "fips_pop_yearly county_populations 2015 2016 =
     Inr [\<lparr>population = 100, county_FIPS = 1, year = 2015\<rparr>,
          \<lparr>population = 50, county_FIPS = 2, year = 2015\<rparr>,
          \<lparr>population = 200, county_FIPS = 1, year = 2016\<rparr>,
          \<lparr>population = 60, county_FIPS = 2, year = 2016\<rparr>]
   \<and> (\<exists>y\<in>{2015..2017}. fips_pop_yearly county_populations 2015 2017 = Inl (KeyError [pop_key y]))"
proof -
  have f: "map_of county_populations ''county_FIPS'' = Some [1, 2]"
    by (simp add: county_populations_def)
  have w: "\<forall>(c, v)\<in>set county_populations. length v = length [1, 2 :: int]"
    by (simp add: county_populations_def)
  have s16: "{2015..2016::int} = {2015, 2016}" by auto
  have s17: "{2015..2017::int} = {2015, 2016, 2017}" by auto
  have a: "\<forall>y\<in>{2015..2016}. map_of county_populations (pop_key y) \<noteq> None"
    unfolding s16 by (simp add: pop_key_2015 pop_key_2016 county_populations_def)
  have b: "\<exists>y\<in>{2015..2017}. map_of county_populations (pop_key y) = None"
    unfolding s17 by (simp add: pop_key_2017 county_populations_def)
  from fips_pop_yearly_rows [OF f w, of 2015 2016] a
  have "fips_pop_yearly county_populations 2015 2016
      = Inr (concat (map (year_rows county_populations [1, 2]) [2015..2016]))" by auto
  then have 1: "fips_pop_yearly county_populations 2015 2016 =
     Inr [\<lparr>population = 100, county_FIPS = 1, year = 2015\<rparr>,
          \<lparr>population = 50, county_FIPS = 2, year = 2015\<rparr>,
          \<lparr>population = 200, county_FIPS = 1, year = 2016\<rparr>,
          \<lparr>population = 60, county_FIPS = 2, year = 2016\<rparr>]"
    by (simp add: upto_2015_2016 year_rows_def pop_key_2015 pop_key_2016 county_populations_def)
  from fips_pop_yearly_rows [OF f w, of 2015 2017] b
  have 2: "\<exists>y\<in>{2015..2017}. fips_pop_yearly county_populations 2015 2017 = Inl (KeyError [pop_key y])"
    by blast
  from 1 2 show ?thesis by blast
qed

theorem fips_pop_yearly_error_counterexample:
  "fips_pop_yearly county_populations 2015 2017 = Inl (KeyError [''pop_2017''])
   \<and> exception_name (projl (fips_pop_yearly county_populations 2015 2017)) = ''KeyError''
   \<and> exception_name (projl (fips_pop_yearly county_populations 2015 2017)) \<noteq> ''DataError''"
proof -
  have "fips_pop_yearly county_populations 2015 2017 = Inl (KeyError [''pop_2017''])"
    by code_simp
  then show ?thesis by (simp add: exception_name_def)
qed

subsection \<open>merge\_mapping\_data and ba\_pop\_sum\<close>

lemma group_sums_total:
  fixes kv :: "('k \<times> int) list"
  assumes "finite K" "fst ` set kv \<subseteq> K"
  shows "(\<Sum>k\<in>K. sum_list (map snd (filter (\<lambda>p. fst p = k) kv))) = sum_list (map snd kv)"
  using assms(2)
proof (induction kv)
  case Nil
  then show ?case by simp
next
  case (Cons p kv)
  have "(\<Sum>k\<in>K. sum_list (map snd (filter (\<lambda>q. fst q = k) (p # kv))))
      = (\<Sum>k\<in>K. (if k = fst p then snd p else 0) + sum_list (map snd (filter (\<lambda>q. fst q = k) kv)))"
    by (intro sum.cong refl) auto
  also have "\<dots> = (\<Sum>k\<in>K. if k = fst p then snd p else 0)
      + (\<Sum>k\<in>K. sum_list (map snd (filter (\<lambda>q. fst q = k) kv)))"
    by (rule sum.distrib)
  also have "(\<Sum>k\<in>K. if k = fst p then snd p else 0) = snd p"
    using assms(1) Cons.prems by simp
  finally show ?case using Cons by simp
qed

lemma ba_pop_sum_total:
  "sum_list (map snd (ba_pop_sum df_pop)) = sum_list (map snd (keyed df_pop))"
proof -
  let ?kv = "keyed df_pop"
  let ?ks = "sort (remdups (map fst ?kv))"
  let ?g = "\<lambda>k. sum_list (map snd (filter (\<lambda>p. fst p = k) ?kv))"
  have "map snd (ba_pop_sum df_pop) = map ?g ?ks"
    by (simp add: ba_pop_sum_def comp_def)
  moreover have "distinct ?ks" by simp
  then have "sum_list (map ?g ?ks) = sum ?g (set ?ks)"
    by (rule sum_list_distinct_conv_sum_set)
  moreover have "sum ?g (set ?ks) = sum_list (map snd ?kv)"
    by (rule group_sums_total) simp_all
  ultimately show ?thesis by simp
qed

lemma ba_pop_sum_keys: "distinct (map fst (ba_pop_sum df_pop))"
  by (simp add: ba_pop_sum_def comp_def)

lemma keyed_append: "keyed (xs @ ys) = keyed xs @ keyed ys"
  by (simp add: keyed_def)

lemma sum_keyed_concat:
  "sum_list (map snd (keyed (concat (map F xs))))
     = sum_list (map (\<lambda>x. sum_list (map snd (keyed (F x)))) xs)"
  by (induction xs) (simp_all add: keyed_append, simp add: keyed_def)

lemma distinct_filter_le_one:
  "distinct (map f xs) \<Longrightarrow> length (filter (\<lambda>x. f x = k) xs) \<le> 1"
proof (induction xs)
  case Nil
  then show ?case by simp
next
  case (Cons x xs)
  show ?case
  proof (cases "f x = k")
    case True
    with Cons.prems have "\<forall>y\<in>set xs. f y \<noteq> k" by (auto simp add: image_iff)
    then have "filter (\<lambda>x. f x = k) xs = []" by (simp add: filter_empty_conv)
    with True show ?thesis by simp
  next
    case False
    with Cons show ?thesis by simp
  qed
qed

lemma left_match_sum:
  assumes "distinct (map (\<lambda>m. (map_county_FIPS m, map_year m)) df_map)" and "0 \<le> population r"
  shows "sum_list (map snd (keyed (left_match df_map r))) \<le> population r"
proof -
  let ?ms = "filter (\<lambda>m. map_county_FIPS m = county_FIPS r \<and> map_year m = year r) df_map"
  from distinct_filter_le_one [OF assms(1), of "(county_FIPS r, year r)"]
  have "length ?ms \<le> 1" by simp
  then consider "?ms = []" | m where "?ms = [m]"
    by (cases ?ms) (auto simp add: length_Suc_conv)
  then show ?thesis
  proof cases
    case 1
    then show ?thesis using assms(2) by (simp add: left_match_def keyed_def pop_row.defs)
  next
    case 2
    then show ?thesis by (simp add: left_match_def keyed_def pop_row.defs)
  qed
qed

text \<open>
  Claim C6. Let the assignment table hold at most one row per county and year, and let
  no population be negative (a county population record holds a non-negative number).
  Then the sums that \<open>ba_pop_sum\<close> gives for the left merge of line 82 add up to at
  most the sum of the populations of all rows of the population table: a county is
  counted at most once per year.
\<close>

theorem ba_pop_sum_no_double_counting:
  assumes "distinct (map (\<lambda>m. (map_county_FIPS m, map_year m)) df_map)"
    and "\<forall>r\<in>set df_pop. 0 \<le> population r"
  shows "sum_list (map snd (ba_pop_sum (merge_left df_pop df_map))) \<le> sum_list (map population df_pop)"
proof -
  have "sum_list (map snd (ba_pop_sum (merge_left df_pop df_map)))
      = sum_list (map (\<lambda>r. sum_list (map snd (keyed (left_match df_map r)))) df_pop)"
    by (simp add: ba_pop_sum_total merge_left_def sum_keyed_concat)
  also have "\<dots> \<le> sum_list (map population df_pop)"
    using assms by (intro sum_list_mono left_match_sum) auto
  finally show ?thesis .
qed

lemma ba_pop_sum_example:
  "ba_pop_sum (merge_left county_years testba_map)
     = [((''OTHER'', 2016), 60), ((''TESTBA'', 2015), 150), ((''TESTBA'', 2016), 200)]"
  by code_simp

theorem ba_pop_sum_no_double_counting_witness:
  "ba_pop_sum (merge_left county_years testba_map)
     = [((''OTHER'', 2016), 60), ((''TESTBA'', 2015), 150), ((''TESTBA'', 2016), 200)]
   \<and> sum_list (map snd (ba_pop_sum (merge_left county_years testba_map))) \<le> 417
   \<and> sum_list (map population county_years) = 417"
proof -
  have d: "distinct (map (\<lambda>m. (map_county_FIPS m, map_year m)) testba_map)"
    by (simp add: testba_map_def)
  have n: "\<forall>r\<in>set county_years. 0 \<le> population r"
    by (simp add: county_years_def)
  have s: "sum_list (map population county_years) = 417"
    by (simp add: county_years_def)
  from ba_pop_sum_no_double_counting [OF d n] s ba_pop_sum_example show ?thesis by simp
qed

text \<open>Whatever it is given, \<open>merge_mapping_data\<close> raises.\<close>

theorem merge_mapping_data_raises: "isl (merge_mapping_data mapping_file df_pop start_year end_year)"
  by (simp add: merge_mapping_data_def Let_def split: option.splits)

text \<open>
  Claim C4, at an assignment table whose BA number is in no metadata: the table is
  read and its three columns are found, and then line 69 raises AttributeError; no
  table, empty or not, is returned.
\<close>

theorem merge_mapping_data_unknown_ba_raises:
  "merge_mapping_data (Some unknown_ba_assignment) county_populations 2015 2016
     = Inl (AttributeError ''totuple'')"
  by (simp add: merge_mapping_data_def unknown_ba_assignment_def)

subsection \<open>Pivot, reindex and interpolation\<close>

lemma map_of_zip_map_inj:
  "inj f \<Longrightarrow> map_of (zip (map f xs) (map g xs)) (f x) = (if x \<in> set xs then Some (g x) else None)"
  by (induction xs) (auto simp add: inj_eq)

lemma map_of_zip_map_notin:
  "l \<notin> f ` set xs \<Longrightarrow> map_of (zip (map f xs) (map g xs)) l = None"
  by (induction xs) auto

lemma map_of_key_year:
  "map_of df (n, y) \<noteq> None \<Longrightarrow> y \<in> set (sort (remdups (map (\<lambda>r. snd (fst r)) df)))"
proof -
  assume "map_of df (n, y) \<noteq> None"
  then obtain v where "map_of df (n, y) = Some v" by auto
  then have "((n, y), v) \<in> set df" by (rule map_of_SomeD)
  then have "snd (fst ((n, y), v)) \<in> (\<lambda>r. snd (fst r)) ` set df" by (rule imageI)
  then show ?thesis by simp
qed

lemma pivot_lookup:
  "(case map_of (zip (map Year (sort (remdups (map (\<lambda>r. snd (fst r)) df))))
                     (map (\<lambda>y. map_option of_int (map_of df (n, y))) (sort (remdups (map (\<lambda>r. snd (fst r)) df))))) l of
      None \<Rightarrow> None | Some v \<Rightarrow> v) = annual_at df n l"
proof (cases l)
  case (Year y)
  let ?ys = "sort (remdups (map (\<lambda>r. snd (fst r)) df))"
  let ?G = "\<lambda>y. map_option rat_of_int (map_of df (n, y))"
  have eq: "map_of (zip (map Year ?ys) (map ?G ?ys)) (Year y) = (if y \<in> set ?ys then Some (?G y) else None)"
    by (rule map_of_zip_map_inj) (simp add: inj_def)
  show ?thesis
  proof (cases "y \<in> set ?ys")
    case True
    then show ?thesis unfolding Year annual_at_def eq by simp
  next
    case False
    with map_of_key_year [of df n y] have "map_of df (n, y) = None" by blast
    with False show ?thesis unfolding Year annual_at_def eq by simp
  qed
next
  case (Timestamp t)
  let ?ys = "sort (remdups (map (\<lambda>r. snd (fst r)) df))"
  let ?G = "\<lambda>y. map_option rat_of_int (map_of df (n, y))"
  have eq: "map_of (zip (map Year ?ys) (map ?G ?ys)) (Timestamp t) = None"
    by (rule map_of_zip_map_notin) auto
  show ?thesis unfolding Timestamp annual_at_def eq by simp
qed

lemma reindex_pivot:
  assumes "pivot df = Inr wide"
  shows "reindex wide idx =
     \<lparr>index = idx,
      columns = map (\<lambda>n. (n, map (annual_at df n) idx)) (sort (remdups (map (\<lambda>r. fst (fst r)) df)))\<rparr>"
proof -
  from assms have w: "wide = \<lparr>index = map Year (sort (remdups (map (\<lambda>r. snd (fst r)) df))),
      columns = map (\<lambda>n. (n, map (\<lambda>y. map_option of_int (map_of df (n, y)))
          (sort (remdups (map (\<lambda>r. snd (fst r)) df))))) (sort (remdups (map (\<lambda>r. fst (fst r)) df)))\<rparr>"
    by (simp add: pivot_def Let_def split: if_splits)
  show ?thesis unfolding w reindex_def by (simp add: comp_def pivot_lookup)
qed

lemma pivot_distinct: "distinct (map fst df) \<Longrightarrow> \<exists>wide. pivot df = Inr wide"
  by (simp add: pivot_def Let_def)


lemma column_lookup:
  "map_of (map (\<lambda>n. (n, F n)) ns) b = (if b \<in> set ns then Some (F b) else None)"
  by (induction ns) auto


lemma interpolate_linear_all_missing:
  assumes "\<forall>v\<in>set ys. v = None"
  shows "interpolate_linear ys = ys"
proof -
  have "map (interp_at ys) [0..<length ys] = map ((!) ys) [0..<length ys]"
  proof (rule map_cong [OF refl])
    fix i assume "i \<in> set [0..<length ys]"
    then have i: "i < length ys" by simp
    with assms have "ys ! i = None" by simp
    moreover have "valid_before ys i = []"
      unfolding valid_before_def filter_empty_conv using assms i by simp
    ultimately show "interp_at ys i = ys ! i" by (simp add: interp_at_def)
  qed
  then show ?thesis by (simp add: interpolate_linear_def map_nth)
qed

lemma annual_at_date_range:
  "map (annual_at df n) (date_range s e) = replicate (length (date_range s e)) None"
  by (simp add: date_range_def annual_at_def comp_def map_replicate_const)

lemma lookup_all_missing:
  "\<forall>v\<in>set col. v = None \<Longrightarrow>
   (case map_of (zip idx col) l of None \<Rightarrow> None | Some v \<Rightarrow> v) = (None :: rat option)"
  by (auto split: option.splits dest!: map_of_SomeD set_zip_rightD)

lemma value_at_all_missing:
  "value_at \<lparr>index = idx, columns = map (\<lambda>n. (n, replicate (length idx) None)) ns\<rparr> b l = None"
  by (simp add: value_at_def column_lookup lookup_all_missing)

lemma hours_2015: "hours_since_epoch 2015 1 1 0 = 394464" "hours_since_epoch 2015 12 31 0 = 403200"
  "hours_since_epoch 2015 12 31 23 = 403223" "hours_since_epoch 2016 1 1 0 = 403224"
  "hours_since_epoch 2016 12 31 0 = 411984"
  by (simp_all add: hours_since_epoch_def ymd2ord_def days_before_year_def days_before_month_def is_leap_def)

lemma length_date_range:
  "length (date_range s e) = nat (hours_since_epoch e 12 31 0 - hours_since_epoch s 1 1 0 + 1)"
  by (simp add: date_range_def)

lemma days_before_year_mono: "s \<le> e \<Longrightarrow> days_before_year s \<le> days_before_year e"
proof (cases "s = e")
  case True
  then show ?thesis by simp
next
  case False
  assume "s \<le> e"
  with False have a: "s < e" by simp
  define a4 b4 a100 b100 a400 b400
    where "a4 = (s - 1) div 4" and "b4 = (e - 1) div 4"
      and "a100 = (s - 1) div 100" and "b100 = (e - 1) div 100"
      and "a400 = (s - 1) div 400" and "b400 = (e - 1) div 400"
  have 1: "a4 \<le> b4" unfolding a4_def b4_def using a by (intro zdiv_mono1) simp_all
  have 2: "a400 \<le> b400" unfolding a400_def b400_def using a by (intro zdiv_mono1) simp_all
  have 3: "b100 * 100 \<le> e - 1" unfolding b100_def by simp
  have "(s - 1) mod 100 < 100" by simp
  moreover have "a100 * 100 + (s - 1) mod 100 = s - 1" unfolding a100_def by simp
  ultimately have 4: "s - 1 < a100 * 100 + 100" by linarith
  have "(s - 1) * 365 + a4 - a100 + a400 \<le> (e - 1) * 365 + b4 - b100 + b400"
    using 1 2 3 4 a by (simp add: algebra_simps)
  then show ?thesis
    unfolding days_before_year_def a4_def b4_def a100_def b100_def a400_def b400_def .
qed

lemma set_date_range:
  "set (date_range s e) = Timestamp ` {hours_since_epoch s 1 1 0 .. hours_since_epoch e 12 31 0}"
  by (simp add: date_range_def)

lemma hd_date_range:
  assumes "hours_since_epoch s 1 1 0 \<le> hours_since_epoch e 12 31 0"
  shows "hd (date_range s e) = Timestamp (hours_since_epoch s 1 1 0)"
  unfolding date_range_def by (subst upto_rec1 [OF assms]) simp

lemma last_date_range:
  assumes "hours_since_epoch s 1 1 0 \<le> hours_since_epoch e 12 31 0"
  shows "last (date_range s e) = Timestamp (hours_since_epoch e 12 31 0)"
  unfolding date_range_def by (subst upto_rec2 [OF assms]) simp

subsection \<open>Years that pandas can hold\<close>

lemma days_before_year_values:
  "days_before_year 1970 = 719162" "days_before_year 1677 = 612147"
  "days_before_year 1678 = 612512" "days_before_year 2261 = 825448"
  "days_before_year 2262 = 825813"
  by (simp_all add: days_before_year_def)

lemma Timestamp_bounds: "Timestamp_min = - 2562047" "Timestamp_max = 2562047"
  by (simp_all add: Timestamp_min_def Timestamp_max_def hours_since_epoch_def ymd2ord_def
      days_before_year_def days_before_month_def is_leap_def)

lemma hours_since_epoch_jan1:
  "hours_since_epoch y 1 1 0 = (days_before_year y - 719162) * 24"
  by (simp add: hours_since_epoch_def ymd2ord_def days_before_month_def days_before_year_values)

lemma ymd2ord_dec31:
  "days_before_year y + 365 \<le> ymd2ord y 12 31 \<and> ymd2ord y 12 31 \<le> days_before_year y + 366"
  by (simp add: ymd2ord_def days_before_month_def)

lemma hours_since_epoch_dec31:
  "hours_since_epoch y 12 31 0 = (ymd2ord y 12 31 - 719163) * 24"
proof -
  have "ymd2ord 1970 1 1 = 719163"
    by (simp add: ymd2ord_def days_before_month_def days_before_year_values)
  then show ?thesis unfolding hours_since_epoch_def by simp
qed

lemma to_timestamp_jan1:
  assumes "1678 \<le> y" and "y \<le> 2262"
  shows "to_timestamp y 1 1 = Inr (hours_since_epoch y 1 1 0)"
proof -
  from days_before_year_mono [OF assms(1)] days_before_year_mono [OF assms(2)]
  have "612512 \<le> days_before_year y" and "days_before_year y \<le> 825813"
    by (simp_all add: days_before_year_values)
  with assms show ?thesis
    unfolding to_timestamp_def hours_since_epoch_jan1 Timestamp_bounds by simp
qed

lemma to_timestamp_dec31:
  assumes "1677 \<le> y" and "y \<le> 2261"
  shows "to_timestamp y 12 31 = Inr (hours_since_epoch y 12 31 0)"
proof -
  from days_before_year_mono [OF assms(1)] days_before_year_mono [OF assms(2)]
  have "612147 \<le> days_before_year y" and "days_before_year y \<le> 825448"
    by (simp_all add: days_before_year_values)
  with ymd2ord_dec31 [of y]
  have "612512 \<le> ymd2ord y 12 31" and "ymd2ord y 12 31 \<le> 825814" by linarith+
  with assms show ?thesis
    unfolding to_timestamp_def hours_since_epoch_dec31 Timestamp_bounds by simp
qed

lemma to_datetime_in_range:
  "\<forall>y\<in>set ys. 1678 \<le> y \<and> y \<le> 2262 \<Longrightarrow> \<exists>ts. to_datetime ys = Inr ts"
proof (induction ys)
  case Nil
  then show ?case by simp
next
  case (Cons y ys)
  then obtain ts where "to_datetime ys = Inr ts" by auto
  moreover from Cons.prems have "to_timestamp y 1 1 = Inr (hours_since_epoch y 1 1 0)"
    by (intro to_timestamp_jan1) simp_all
  ultimately show ?case by simp
qed

lemma pd_date_range_in_range:
  assumes "1678 \<le> s" and "s \<le> 2262" and "1677 \<le> e" and "e \<le> 2261"
  shows "pd_date_range s e = Inr (date_range s e)"
  unfolding pd_date_range_def to_timestamp_jan1 [OF assms(1,2)] to_timestamp_dec31 [OF assms(3,4)]
  by simp

subsection \<open>The body of ba\_pop\_interpolate\<close>

lemma ba_pop_interpolate_body_result:
  assumes "distinct (map fst df)"
    and "\<forall>r\<in>set df. 1678 \<le> snd (fst r) \<and> snd (fst r) \<le> 2262"
    and "1678 \<le> s" and "s \<le> 2262" and "1677 \<le> e" and "e \<le> 2261"
  shows "ba_pop_interpolate_body df out s e =
     Inr ((path_join out ''hourly_population.csv'',
           to_csv \<lparr>index = date_range s e,
             columns = map (\<lambda>n. (n, interpolate_linear (map (annual_at df n) (date_range s e))))
                (sort (remdups (map (\<lambda>r. fst (fst r)) df)))\<rparr>),
          \<lparr>index = date_range s e,
             columns = map (\<lambda>n. (n, interpolate_linear (map (annual_at df n) (date_range s e))))
                (sort (remdups (map (\<lambda>r. fst (fst r)) df)))\<rparr>)"
proof -
  from pivot_distinct [OF assms(1)] obtain wide where w: "pivot df = Inr wide" by blast
  from assms(2) have "\<forall>y\<in>set (map (\<lambda>r. snd (fst r)) df). 1678 \<le> y \<and> y \<le> 2262" by simp
  from to_datetime_in_range [OF this]
  obtain ts where t: "to_datetime (map (\<lambda>r. snd (fst r)) df) = Inr ts" by blast
  show ?thesis
    by (simp add: ba_pop_interpolate_body_def t w pd_date_range_in_range [OF assms(3-6)]
        reindex_pivot [OF w] interpolate_def comp_def Let_def)
qed

lemma ba_pop_interpolate_body_all_missing:
  assumes "distinct (map fst df)"
    and "\<forall>r\<in>set df. 1678 \<le> snd (fst r) \<and> snd (fst r) \<le> 2262"
    and "1678 \<le> s" and "s \<le> 2262" and "1677 \<le> e" and "e \<le> 2261"
  shows "ba_pop_interpolate_body df out s e =
     Inr ((path_join out ''hourly_population.csv'',
           to_csv \<lparr>index = date_range s e,
             columns = map (\<lambda>n. (n, replicate (length (date_range s e)) None))
                (sort (remdups (map (\<lambda>r. fst (fst r)) df)))\<rparr>),
          \<lparr>index = date_range s e,
             columns = map (\<lambda>n. (n, replicate (length (date_range s e)) None))
                (sort (remdups (map (\<lambda>r. fst (fst r)) df)))\<rparr>)"
  unfolding ba_pop_interpolate_body_result [OF assms] annual_at_date_range
  by (simp add: interpolate_linear_all_missing)


lemma testba_tables:
  "distinct (map fst testba_annual)" "distinct (map fst testba_other_annual)"
  "\<forall>r\<in>set testba_annual. 1678 \<le> snd (fst r) \<and> snd (fst r) \<le> 2262"
  "\<forall>r\<in>set testba_other_annual. 1678 \<le> snd (fst r) \<and> snd (fst r) \<le> 2262"
  by (simp_all add: testba_annual_def testba_other_annual_def)





subsection \<open>The hourly index\<close>

text \<open>
  For every range of years that pandas can hold, with start\_year at most end\_year,
  line 131 gives an index with 23 entries fewer than 24 per day of the range.
\<close>

theorem date_range_entries:
  assumes "1678 \<le> s" and "s \<le> e" and "e \<le> 2261"
  shows "\<exists>idx. pd_date_range s e = Inr idx \<and> int (length idx) = 24 * days_inclusive s e - 23"
proof -
  have "ymd2ord s 1 1 = days_before_year s + 1"
    by (simp add: ymd2ord_def days_before_month_def)
  moreover have "ymd2ord e 12 31 \<ge> days_before_year e + 365"
    by (simp add: ymd2ord_def days_before_month_def)
  ultimately have "ymd2ord s 1 1 \<le> ymd2ord e 12 31"
    using days_before_year_mono [OF assms(2)] by linarith
  then have "int (length (date_range s e)) = 24 * days_inclusive s e - 23"
    unfolding length_date_range hours_since_epoch_def days_inclusive_def by simp
  moreover from assms have "pd_date_range s e = Inr (date_range s e)"
    by (intro pd_date_range_in_range) simp_all
  ultimately show ?thesis by simp
qed

theorem date_range_entries_witness:
  "(\<exists>idx. pd_date_range 2015 2016 = Inr idx \<and> int (length idx) = 24 * days_inclusive 2015 2016 - 23)
   \<and> days_inclusive 2015 2016 = 731"
proof -
  have "days_inclusive 2015 2016 = 731"
    by (simp add: days_inclusive_def ymd2ord_def days_before_year_def days_before_month_def
        is_leap_def)
  with date_range_entries [of 2015 2016] show ?thesis by simp
qed

text \<open>
  Claim C2, at the range 2015 to 2015. The index built at line 131 starts at
  2015-01-01 00:00 and ends at 2015-12-31 00:00, midnight of the day that the string
  \<open>2015-12-31\<close> names: it has 8737 entries, 23 fewer than the 8760 of 24 times 365
  days, and the hour 2015-12-31 23:00 is not in it.
\<close>

theorem date_range_2015:
  "length (date_range 2015 2015) = 8737
   \<and> hd (date_range 2015 2015) = Timestamp (hours_since_epoch 2015 1 1 0)
   \<and> last (date_range 2015 2015) = Timestamp (hours_since_epoch 2015 12 31 0)
   \<and> Timestamp (hours_since_epoch 2015 12 31 23) \<notin> set (date_range 2015 2015)
   \<and> 24 * days_inclusive 2015 2015 = 8760"
proof -
  have le: "hours_since_epoch 2015 1 1 0 \<le> hours_since_epoch 2015 12 31 0"
    unfolding hours_2015 by simp
  have "length (date_range 2015 2015) = 8737"
    unfolding length_date_range hours_2015 by simp
  moreover note hd_date_range [OF le] last_date_range [OF le]
  moreover have "Timestamp (hours_since_epoch 2015 12 31 23) \<notin> set (date_range 2015 2015)"
    unfolding set_date_range hours_2015 by auto
  moreover have "24 * days_inclusive 2015 2015 = 8760"
    by (simp add: days_inclusive_def ymd2ord_def days_before_year_def days_before_month_def is_leap_def)
  ultimately show ?thesis by blast
qed

text \<open>
  Claim C1, at the spec's example. The annual table gives TESTBA the value 260 for
  2016, and 2016-01-01 00:00 is an entry of the hourly index, but the series returned
  by the body of \<open>ba_pop_interpolate\<close> has no value there: the pivot is indexed by the integers
  2015 and 2016 (line 124 converts the years to dates and drops the result), no entry
  of the hourly index equals one of them, so the reindexed table holds missing values
  only and the interpolation has nothing to start from.
\<close>

theorem ba_pop_interpolate_anchor_missing:
  "\<exists>w res. ba_pop_interpolate_body testba_annual ''out'' 2015 2016 = Inr (w, res)
     \<and> Timestamp (hours_since_epoch 2016 1 1 0) \<in> set (index res)
     \<and> value_at res ''TESTBA'' (Timestamp (hours_since_epoch 2016 1 1 0)) = None
     \<and> map_of testba_annual (''TESTBA'', 2016) = Some 260"
proof -
  have "Timestamp (hours_since_epoch 2016 1 1 0) \<in> set (date_range 2015 2016)"
    unfolding set_date_range hours_2015 by simp
  moreover have "map_of testba_annual (''TESTBA'', 2016) = Some 260"
    by (simp add: testba_annual_def)
  ultimately show ?thesis
    unfolding ba_pop_interpolate_body_all_missing [OF testba_tables(1,3), of 2015 2016 "''out''", simplified]
    by (simp add: value_at_all_missing)
qed

lemma testba_names: "sort (remdups (map (\<lambda>r. fst (fst r)) testba_annual)) = [''TESTBA'']"
  by (simp add: testba_annual_def)

lemma rows_of_replicate: "rows_of n [replicate n c] = replicate n [c]"
proof -
  have "map (\<lambda>i. [nth_cell (replicate n c) i]) [0..<n] = map (\<lambda>i. [c]) [0..<n]"
    by (rule map_cong) (simp_all add: nth_cell_def)
  then show ?thesis by (simp add: rows_of_def map_replicate_const)
qed

text \<open>
  Claim C3, at the spec's example. The file that the body of \<open>ba_pop_interpolate\<close>
  writes has the one column TESTBA, named after the BA, and one line per entry of the
  hourly index, each with the one field of that column (a missing value). It has no
  column Year, Month, Day or Hour: the points in time are the index of the table, and
  line 136 writes the table with \<open>index=False\<close>.
\<close>

theorem ba_pop_interpolate_file_columns:
  "\<exists>f res. ba_pop_interpolate_body testba_annual ''out'' 2015 2016
              = Inr ((''out/hourly_population.csv'', f), res)
      \<and> header f = [''TESTBA'']
      \<and> header f \<noteq> [''Year'', ''Month'', ''Day'', ''Hour'', ''Population'']
      \<and> body f = replicate (length (index res)) [NA]
      \<and> length (index res) = 17521"
proof -
  let ?res = "\<lparr>index = date_range 2015 2016,
      columns = map (\<lambda>n. (n, replicate (length (date_range 2015 2016)) (None :: rat option)))
        [''TESTBA'']\<rparr>"
  have p: "path_join ''out'' ''hourly_population.csv'' = ''out/hourly_population.csv''"
    by (simp add: path_join_def)
  have eq: "ba_pop_interpolate_body testba_annual ''out'' 2015 2016
      = Inr ((''out/hourly_population.csv'', to_csv ?res), ?res)"
    unfolding ba_pop_interpolate_body_all_missing [OF testba_tables(1,3), of 2015 2016 "''out''", simplified]
      testba_names p ..
  have h: "header (to_csv ?res) = [''TESTBA'']"
    by (simp add: to_csv_def)
  have n: "header (to_csv ?res) \<noteq> [''Year'', ''Month'', ''Day'', ''Hour'', ''Population'']"
    by (simp add: to_csv_def)
  have b: "body (to_csv ?res) = replicate (length (index ?res)) [NA]"
    by (simp add: to_csv_def rows_of_replicate cell_of_def)
  have l: "length (index ?res) = 17521"
    unfolding frame.simps length_date_range hours_2015 by simp
  show ?thesis
    by (intro exI [of _ "to_csv ?res"] exI [of _ ?res] conjI eq h n b l)
qed

text \<open>
  The function as the module has it raises for every input: line 123 reaches line 69
  of \<open>merge_mapping_data\<close>.
\<close>

theorem ba_pop_interpolate_raises:
  "isl (ba_pop_interpolate mapping_file df_pop output_dir start_year end_year)"
  by (simp add: ba_pop_interpolate_def merge_mapping_data_def Let_def split: option.splits)

end
